theory Spec2Isabelle
  imports Main "HOL-Library.AList"
begin

section \<open>Python values\<close>

text \<open>
  The transports receive decoded JSON: \<open>None\<close>, booleans, integers, strings, lists and
  dicts with string keys.  A dict is its list of items and \<open>map_of\<close> reads it.  Numbers
  with a fraction (Python floats) are left out of the model.  Strings are byte lists and
  stand for ASCII text.
\<close>

datatype pyval =
    PNone
  | PBool bool
  | PInt int
  | PStr string
  | PList "pyval list"
  | PDict "(string \<times> pyval) list"

datatype steamship_error =
    NoChat
  | NoChatId
  | BadChatId
  | NoMessageId
  | BadMessageId
  | MessageNotSent string
  | NoQuestion
  | TagAlreadySet

text \<open>
  The exceptions the modelled code can raise.  A \<open>SteamshipError\<close> carries the place that
  raised it instead of the formatted message.
\<close>

datatype exn =
    SteamshipError steamship_error
  | AttributeError
  | KeyError string
  | TypeError
  | ValueError
  | OtherException string

text \<open>\<open>d.get(k)\<close> and \<open>d.get(k, default)\<close>: only a dict has the method.\<close>

fun py_get :: "pyval \<Rightarrow> string \<Rightarrow> exn + pyval" where
  "py_get (PDict kvs) k = Inr (case map_of kvs k of None \<Rightarrow> PNone | Some v \<Rightarrow> v)"
| "py_get _ k = Inl AttributeError"

fun py_get_default :: "pyval \<Rightarrow> string \<Rightarrow> pyval \<Rightarrow> exn + pyval" where
  "py_get_default (PDict kvs) k d = Inr (case map_of kvs k of None \<Rightarrow> d | Some v \<Rightarrow> v)"
| "py_get_default _ k d = Inl AttributeError"

text \<open>\<open>d[k]\<close> with a string key.\<close>

fun py_getitem :: "pyval \<Rightarrow> string \<Rightarrow> exn + pyval" where
  "py_getitem (PDict kvs) k = (case map_of kvs k of None \<Rightarrow> Inl (KeyError k) | Some v \<Rightarrow> Inr v)"
| "py_getitem _ k = Inl TypeError"

text \<open>The truth value Python gives a value in \<open>if\<close>, \<open>or\<close> and \<open>not\<close>.\<close>

fun truthy :: "pyval \<Rightarrow> bool" where
  "truthy PNone = False"
| "truthy (PBool b) = b"
| "truthy (PInt i) = (i \<noteq> 0)"
| "truthy (PStr s) = (s \<noteq> [])"
| "truthy (PList xs) = (xs \<noteq> [])"
| "truthy (PDict kvs) = (kvs \<noteq> [])"

text \<open>\<open>isinstance(v, int)\<close>: \<open>bool\<close> is a subclass of \<open>int\<close>.\<close>

fun isinstance_int :: "pyval \<Rightarrow> bool" where
  "isinstance_int (PInt i) = True"
| "isinstance_int (PBool b) = True"
| "isinstance_int _ = False"

subsection \<open>\<open>str\<close> and \<open>repr\<close>\<close>

definition digit_char :: "nat \<Rightarrow> char" where
  "digit_char d = ''0123456789'' ! d"

function str_nat :: "nat \<Rightarrow> string" where
  "str_nat n = (if n < 10 then [digit_char n] else str_nat (n div 10) @ [digit_char (n mod 10)])"
  by pat_completeness auto
termination
  by (relation "measure id") auto

declare str_nat.simps [simp del]

definition str_int :: "int \<Rightarrow> string" where
  "str_int i = (if i < 0 then CHR ''-'' # str_nat (nat (- i)) else str_nat (nat i))"

definition hex_char :: "nat \<Rightarrow> char" where
  "hex_char d = ''0123456789abcdef'' ! d"

definition escape_char :: "char \<Rightarrow> char \<Rightarrow> string" where
  "escape_char q c =
     (if c = q \<or> c = CHR 0x5C then [CHR 0x5C, c]
      else if c = CHR 0x09 then [CHR 0x5C, CHR ''t'']
      else if c = CHR 0x0A then [CHR 0x5C, CHR ''n'']
      else if c = CHR 0x0D then [CHR 0x5C, CHR ''r'']
      else if (of_char c :: nat) < 32 \<or> (of_char c :: nat) = 127
        then [CHR 0x5C, CHR ''x'', hex_char ((of_char c :: nat) div 16), hex_char ((of_char c :: nat) mod 16)]
      else [c])"

definition repr_str :: "string \<Rightarrow> string" where
  "repr_str s =
     (let q = (if CHR 0x27 \<in> set s \<and> CHR 0x22 \<notin> set s then CHR 0x22 else CHR 0x27)
      in q # concat (map (escape_char q) s) @ [q])"

fun join_comma :: "string list \<Rightarrow> string" where
  "join_comma [] = []"
| "join_comma [x] = x"
| "join_comma (x # y # ys) = x @ '', '' @ join_comma (y # ys)"

primrec py_repr :: "pyval \<Rightarrow> string" where
  "py_repr PNone = ''None''"
| "py_repr (PBool b) = (if b then ''True'' else ''False'')"
| "py_repr (PInt i) = str_int i"
| "py_repr (PStr s) = repr_str s"
| "py_repr (PList xs) = ''['' @ join_comma (map py_repr xs) @ '']''"
| "py_repr (PDict kvs) =
     ''{'' @ join_comma (map (\<lambda>kr. repr_str (fst kr) @ '': '' @ snd kr) (map (map_prod id py_repr) kvs)) @ ''}''"

text \<open>\<open>str(v)\<close>, which is also what an f-string writes: a string is itself, anything else its \<open>repr\<close>.\<close>

definition py_str :: "pyval \<Rightarrow> string" where
  "py_str v = (case v of PStr s \<Rightarrow> s | _ \<Rightarrow> py_repr v)"

subsection \<open>\<open>int\<close>\<close>

definition is_digit :: "char \<Rightarrow> bool" where
  "is_digit c = (48 \<le> (of_char c :: nat) \<and> (of_char c :: nat) \<le> 57)"

definition is_space :: "char \<Rightarrow> bool" where
  "is_space c = ((of_char c :: nat) \<in> {9, 10, 11, 12, 13, 32})"

definition strip :: "string \<Rightarrow> string" where
  "strip s = rev (dropWhile is_space (rev (dropWhile is_space s)))"

fun split_underscore :: "string \<Rightarrow> string list" where
  "split_underscore [] = [[]]"
| "split_underscore (c # cs) =
     (if c = CHR ''_'' then [] # split_underscore cs
      else (case split_underscore cs of [] \<Rightarrow> [[c]] | p # ps \<Rightarrow> (c # p) # ps))"

definition digits_value :: "string \<Rightarrow> nat" where
  "digits_value ds = foldl (\<lambda>acc c. 10 * acc + ((of_char c :: nat) - 48)) 0 ds"

text \<open>
  \<open>int(s)\<close> of a string: surrounding white space, one optional sign, then decimal digits,
  where single underscores may stand between digits.
\<close>

definition int_of_str :: "string \<Rightarrow> int option" where
  "int_of_str s =
     (let t = strip s;
          neg = (t \<noteq> [] \<and> hd t = CHR ''-'');
          body = (if t \<noteq> [] \<and> (hd t = CHR ''-'' \<or> hd t = CHR ''+'') then tl t else t);
          parts = split_underscore body
      in if list_all (\<lambda>p. p \<noteq> [] \<and> list_all is_digit p) parts
         then Some (if neg then - int (digits_value (concat parts)) else int (digits_value (concat parts)))
         else None)"

fun py_int :: "pyval \<Rightarrow> exn + int" where
  "py_int (PInt i) = Inr i"
| "py_int (PBool b) = Inr (if b then 1 else 0)"
| "py_int (PStr s) = (case int_of_str s of None \<Rightarrow> Inl ValueError | Some i \<Rightarrow> Inr i)"
| "py_int _ = Inl TypeError"


section \<open>Blocks\<close>

text \<open>
  Modelled from the spec: the SDK's \<open>Block\<close> class is not among the sources.  A block
  keeps the text and URL it is built with, has an optional MIME kind and raw bytes, and
  carries tags.  The properties \<open>chat_id\<close> and \<open>message_id\<close> read the value stored under
  their tag, \<open>None\<close> when there is none.  The spec is silent on the setters; they are taken
  as the SDK has them, one-time setters: on a block without the id they store it, on a
  block that already carries the same id they do nothing, and on a block that carries a
  different id they raise \<open>SteamshipError\<close>.
\<close>

datatype mime = MimeText | MimeImage | MimeAudio | MimeVideo | MimeOther string

type_synonym tag = "string \<times> pyval"

record block =
  block_text :: pyval
  url :: "string option"
  mime_type :: "mime option"
  raw :: string
  tags :: "tag list"

definition Block :: "pyval \<Rightarrow> string option \<Rightarrow> block" where
  "Block t u = \<lparr>block_text = t, url = u, mime_type = None, raw = [], tags = []\<rparr>"

definition chat_id :: "block \<Rightarrow> pyval" where
  "chat_id b = (case map_of (tags b) ''chat_id'' of None \<Rightarrow> PNone | Some v \<Rightarrow> v)"

definition message_id :: "block \<Rightarrow> pyval" where
  "message_id b = (case map_of (tags b) ''message_id'' of None \<Rightarrow> PNone | Some v \<Rightarrow> v)"

text \<open>The block with an id stored under its tag: what a setter leaves when it stores.\<close>

definition with_chat_id :: "pyval \<Rightarrow> block \<Rightarrow> block" where
  "with_chat_id v b = b\<lparr>tags := AList.update ''chat_id'' v (tags b)\<rparr>"

definition with_message_id :: "pyval \<Rightarrow> block \<Rightarrow> block" where
  "with_message_id v b = b\<lparr>tags := AList.update ''message_id'' v (tags b)\<rparr>"

text \<open>
  Modelled from the spec: \<open>Block.set_chat_id\<close> and \<open>Block.set_message_id\<close>, the one-time
  setters.  \<open>Inl\<close> is the \<open>SteamshipError\<close> raised on a block that carries another id.
\<close>

definition set_chat_id :: "pyval \<Rightarrow> block \<Rightarrow> exn + block" where
  "set_chat_id v b =
     (if chat_id b = PNone then Inr (with_chat_id v b)
      else if chat_id b = v then Inr b
      else Inl (SteamshipError TagAlreadySet))"

definition set_message_id :: "pyval \<Rightarrow> block \<Rightarrow> exn + block" where
  "set_message_id v b =
     (if message_id b = PNone then Inr (with_message_id v b)
      else if message_id b = v then Inr b
      else Inl (SteamshipError TagAlreadySet))"

definition is_text :: "block \<Rightarrow> bool" where
  "is_text b = (mime_type b = Some MimeText)"

definition is_image :: "block \<Rightarrow> bool" where
  "is_image b = (mime_type b = Some MimeImage)"

definition is_audio :: "block \<Rightarrow> bool" where
  "is_audio b = (mime_type b = Some MimeAudio)"

definition is_video :: "block \<Rightarrow> bool" where
  "is_video b = (mime_type b = Some MimeVideo)"

section \<open>The hosted platform: chat histories and caches\<close>

text \<open>
  A client is bound to a workspace; a conversation is found under the client and the
  \<open>context_keys\<close> dict (its item list).
\<close>

type_synonym client = string
type_synonym context_keys = "(string \<times> string) list"
type_synonym conversation = "client \<times> context_keys"

datatype role = User | Agent

record entry =
  entry_role :: role
  entry_text :: pyval
  entry_tags :: "tag list"

record chat_log =
  log_id :: nat
  log_tags :: "tag list option"
  log_searchable :: bool
  log_entries :: "entry list"

record cache_store =
  cache_id :: nat
  cache_entries :: "(string \<times> pyval) list"

record platform =
  histories :: "(conversation \<times> chat_log) list"
  action_caches :: "(conversation \<times> cache_store) list"
  llm_caches :: "(conversation \<times> cache_store) list"
  next_id :: nat

text \<open>The handles a context holds: they name the persistent object, they do not copy it.\<close>

record ChatHistory =
  history_of :: conversation
  file_id :: nat

record Cache =
  cache_of :: conversation
  cache_file_id :: nat

type_synonym ActionCache = Cache
type_synonym LLMCache = Cache

text \<open>
  Modelled from the spec: \<open>ChatHistory.get_or_create\<close> is not among the sources.  It is an
  idempotent resolution to a persistent conversation log: the log stored under the client
  and \<open>context_keys\<close> when there is one, else a new, empty log with a fresh id.
\<close>

definition ChatHistory_get_or_create ::
  "client \<Rightarrow> context_keys \<Rightarrow> tag list option \<Rightarrow> bool \<Rightarrow> platform \<Rightarrow> ChatHistory \<times> platform" where
  "ChatHistory_get_or_create c context_keys tgs searchable pf =
     (case map_of (histories pf) (c, context_keys) of
        Some lg \<Rightarrow> (\<lparr>history_of = (c, context_keys), file_id = log_id lg\<rparr>, pf)
      | None \<Rightarrow>
          (\<lparr>history_of = (c, context_keys), file_id = next_id pf\<rparr>,
           pf\<lparr>histories := histories pf @
                  [((c, context_keys),
                    \<lparr>log_id = next_id pf, log_tags = tgs, log_searchable = searchable, log_entries = []\<rparr>)],
              next_id := Suc (next_id pf)\<rparr>))"

text \<open>
  Modelled from the spec: \<open>ActionCache.get_or_create\<close> and \<open>LLMCache.get_or_create\<close> are not
  among the sources.  Both follow the same get-or-create contract as the chat history, each
  on its own store; a new cache starts empty.
\<close>

definition ActionCache_get_or_create :: "client \<Rightarrow> context_keys \<Rightarrow> platform \<Rightarrow> ActionCache \<times> platform" where
  "ActionCache_get_or_create c context_keys pf =
     (case map_of (action_caches pf) (c, context_keys) of
        Some st \<Rightarrow> (\<lparr>cache_of = (c, context_keys), cache_file_id = cache_id st\<rparr>, pf)
      | None \<Rightarrow>
          (\<lparr>cache_of = (c, context_keys), cache_file_id = next_id pf\<rparr>,
           pf\<lparr>action_caches := action_caches pf @
                  [((c, context_keys), \<lparr>cache_id = next_id pf, cache_entries = []\<rparr>)],
              next_id := Suc (next_id pf)\<rparr>))"

text \<open>
  Modelled from the spec: \<open>LLMCache.get_or_create\<close>, the same contract on the store of LLM
  caches.
\<close>

definition LLMCache_get_or_create :: "client \<Rightarrow> context_keys \<Rightarrow> platform \<Rightarrow> LLMCache \<times> platform" where
  "LLMCache_get_or_create c context_keys pf =
     (case map_of (llm_caches pf) (c, context_keys) of
        Some st \<Rightarrow> (\<lparr>cache_of = (c, context_keys), cache_file_id = cache_id st\<rparr>, pf)
      | None \<Rightarrow>
          (\<lparr>cache_of = (c, context_keys), cache_file_id = next_id pf\<rparr>,
           pf\<lparr>llm_caches := llm_caches pf @
                  [((c, context_keys), \<lparr>cache_id = next_id pf, cache_entries = []\<rparr>)],
              next_id := Suc (next_id pf)\<rparr>))"

text \<open>
  Modelled from the spec: \<open>ChatHistory.append_user_message\<close> is not among the sources.  It
  appends one entry attributed to the user at the end of the conversation's log.
\<close>

definition append_user_message :: "ChatHistory \<Rightarrow> pyval \<Rightarrow> tag list \<Rightarrow> platform \<Rightarrow> platform" where
  "append_user_message h t tgs pf =
     pf\<lparr>histories :=
          AList.map_entry (history_of h)
            (\<lambda>lg. lg\<lparr>log_entries := log_entries lg @ [\<lparr>entry_role = User, entry_text = t, entry_tags = tgs\<rparr>]\<rparr>)
            (histories pf)\<rparr>"

text \<open>What a conversation holds: the entries of its log and the contents of its caches.\<close>

definition history_entries :: "platform \<Rightarrow> conversation \<Rightarrow> entry list" where
  "history_entries pf k = (case map_of (histories pf) k of None \<Rightarrow> [] | Some lg \<Rightarrow> log_entries lg)"

definition action_cache_contents :: "platform \<Rightarrow> conversation \<Rightarrow> (string \<times> pyval) list" where
  "action_cache_contents pf k = (case map_of (action_caches pf) k of None \<Rightarrow> [] | Some st \<Rightarrow> cache_entries st)"

definition llm_cache_contents :: "platform \<Rightarrow> conversation \<Rightarrow> (string \<times> pyval) list" where
  "llm_cache_contents pf k = (case map_of (llm_caches pf) k of None \<Rightarrow> [] | Some st \<Rightarrow> cache_entries st)"

section \<open>The world a request runs in\<close>

text \<open>
  Everything a request can change: the calls made to the provider's send API, the lines
  logged at error level, the platform's stores, the number of agent runs, and the web
  widget transport's \<open>message_output\<close> attribute (\<open>None\<close> while the instance has no such
  attribute: the class only annotates it).
\<close>

datatype api_call =
    Get string "(string \<times> pyval) list"
  | Post string string string

datatype log_line =
    ErrorSendingMessage string nat
  | UnableToSend "mime option"

record world =
  outbox :: "api_call list"
  error_log :: "log_line list"
  steamship :: platform
  agent_runs :: nat
  message_output :: "block list option"

type_synonym Metadata = "(string \<times> pyval) list"
type_synonym EmitFunc = "block list \<Rightarrow> Metadata \<Rightarrow> world \<Rightarrow> (exn + unit) \<times> world"

section \<open>context.py\<close>

datatype action = Action string

record AgentContext =
  metadata :: Metadata
  client :: client
  chat_history :: ChatHistory
  completed_steps :: "action list"
  emit_funcs :: "EmitFunc list"
  action_cache :: "ActionCache option"
  llm_cache :: "LLMCache option"

text \<open>The property \<open>AgentContext.id\<close>.\<close>

definition context_id :: "AgentContext \<Rightarrow> nat" where
  "context_id context = file_id (chat_history context)"

text \<open>An \<open>Optional[bool]\<close> flag is true in an \<open>if\<close> only when it is \<open>True\<close>.\<close>

definition flag_set :: "bool option \<Rightarrow> bool" where
  "flag_set f = (f = Some True)"

text \<open>
  \<open>AgentContext.get_or_create\<close>.  The three empty fields are those of \<open>__init__\<close>; the
  platform is passed through the three resolutions in the order of the source.
\<close>

definition AgentContext_get_or_create ::
  "client \<Rightarrow> context_keys \<Rightarrow> tag list option \<Rightarrow> bool \<Rightarrow> bool option \<Rightarrow> bool option \<Rightarrow> platform
     \<Rightarrow> AgentContext \<times> platform" where
  "AgentContext_get_or_create c context_keys tgs searchable use_llm_cache use_action_cache pf =
     (let (history, pf1) = ChatHistory_get_or_create c context_keys tgs searchable pf;
          context = \<lparr>metadata = [], client = c, chat_history = history, completed_steps = [],
                     emit_funcs = [], action_cache = None, llm_cache = None\<rparr>;
          (context, pf2) =
             (if flag_set use_action_cache
              then (let (ac, pf') = ActionCache_get_or_create c context_keys pf1
                    in (context\<lparr>action_cache := Some ac\<rparr>, pf'))
              else (context\<lparr>action_cache := None\<rparr>, pf1));
          (context, pf3) =
             (if flag_set use_llm_cache
              then (let (lc, pf') = LLMCache_get_or_create c context_keys pf2
                    in (context\<lparr>llm_cache := Some lc\<rparr>, pf'))
              else (context\<lparr>llm_cache := None\<rparr>, pf2))
      in (context, pf3))"

section \<open>The transport base class and the agent service\<close>

text \<open>
  Modelled from the spec: the base class \<open>Transport\<close> is not among the sources.  Its
  \<open>send\<close> hands the blocks to the subclass's \<open>_send\<close>, with empty metadata when none is
  given; its \<open>parse_inbound\<close> is the subclass's \<open>_parse_inbound\<close>; and
  \<open>response_for_exception\<close> builds the single user-visible error block, a text block
  that describes the failure and is addressed to the given chat id.
\<close>

definition send ::
  "(block list \<Rightarrow> Metadata \<Rightarrow> world \<Rightarrow> (exn + unit) \<times> world)
     \<Rightarrow> block list \<Rightarrow> Metadata option \<Rightarrow> world \<Rightarrow> (exn + unit) \<times> world" where
  "send send_impl blocks md w = send_impl blocks (case md of None \<Rightarrow> [] | Some m \<Rightarrow> m) w"

text \<open>
  Modelled from the spec: \<open>Transport.response_for_exception\<close>.  The text names the
  exception and is never empty; the block is new, so the chat id given is the one it
  carries.
\<close>

fun exn_name :: "exn \<Rightarrow> string" where
  "exn_name (SteamshipError _) = ''SteamshipError''"
| "exn_name AttributeError = ''AttributeError''"
| "exn_name (KeyError k) = ''KeyError''"
| "exn_name TypeError = ''TypeError''"
| "exn_name ValueError = ''ValueError''"
| "exn_name (OtherException m) = m"

definition response_for_exception :: "exn \<Rightarrow> pyval \<Rightarrow> block" where
  "response_for_exception e cid =
     with_chat_id cid (Block (PStr (''An error happened while creating a response: '' @ exn_name e)) None)"

text \<open>
  Modelled from the spec: the agent engine is not among the sources.  An agent run is a
  sequence of emissions that ends with a result (a list of blocks, or \<open>None\<close>) or with an
  exception.  Each emission calls the registered emission callbacks in registration
  order; an exception raised by a callback ends the run.
\<close>

datatype agent =
    Return "block list option"
  | Raise exn
  | Emit "block list" agent

record AgentService =
  service_client :: client
  use_llm_cache :: "bool option"
  use_action_cache :: "bool option"
  default_agent :: agent

text \<open>
  Modelled from the spec: \<open>AgentService.run_agent\<close> and the way it calls the callbacks of
  the context; the metadata of an emission is empty.  The service keeps the client, the two
  cache flags and the default agent.
\<close>

fun call_emit_funcs :: "EmitFunc list \<Rightarrow> block list \<Rightarrow> world \<Rightarrow> (exn + unit) \<times> world" where
  "call_emit_funcs [] blocks w = (Inr (), w)"
| "call_emit_funcs (f # fs) blocks w =
     (case f blocks [] w of
        (Inl e, w') \<Rightarrow> (Inl e, w')
      | (Inr _, w') \<Rightarrow> call_emit_funcs fs blocks w')"

fun run_steps :: "agent \<Rightarrow> AgentContext \<Rightarrow> world \<Rightarrow> (exn + block list option) \<times> world" where
  "run_steps (Return r) context w = (Inr r, w)"
| "run_steps (Raise e) context w = (Inl e, w)"
| "run_steps (Emit blocks rest) context w =
     (case call_emit_funcs (emit_funcs context) blocks w of
        (Inl e, w') \<Rightarrow> (Inl e, w')
      | (Inr _, w') \<Rightarrow> run_steps rest context w')"

definition run_agent :: "agent \<Rightarrow> AgentContext \<Rightarrow> world \<Rightarrow> (exn + block list option) \<times> world" where
  "run_agent a context w = run_steps a context (w\<lparr>agent_runs := Suc (agent_runs w)\<rparr>)"

text \<open>
  Modelled from the spec: \<open>AgentService.build_default_context\<close> is not among the sources.
  It resolves the agent context of the conversation whose identity is derived from the
  transport's conversation identifier, with the service's cache flags.
\<close>

definition build_default_context :: "AgentService \<Rightarrow> pyval \<Rightarrow> world \<Rightarrow> AgentContext \<times> world" where
  "build_default_context svc cid w =
     (let (context, pf) =
            AgentContext_get_or_create (service_client svc) [(''id'', py_str cid)] None True
              (use_llm_cache svc) (use_action_cache svc) (steamship w)
      in (context, w\<lparr>steamship := pf\<rparr>))"

section \<open>telegram.py\<close>

text \<open>
  The transport after \<open>__init__\<close>, and the provider it talks to: the decoded JSON body
  Telegram answers a GET with, and the status and text it answers a POST with.
\<close>

record TelegramTransport =
  api_root :: string
  bot_token :: string

record http_response =
  status_code :: nat
  response_text :: string

record provider =
  get_json :: "api_call \<Rightarrow> pyval"
  post_response :: "api_call \<Rightarrow> http_response"

text \<open>\<open>_send\<close>: the loop over the blocks, the outbox growing with each request made.\<close>

fun telegram_send ::
  "TelegramTransport \<Rightarrow> provider \<Rightarrow> block list \<Rightarrow> Metadata \<Rightarrow> world \<Rightarrow> (exn + unit) \<times> world" where
  "telegram_send t p [] md w = (Inr (), w)"
| "telegram_send t p (b # blocks) md w =
     (if is_text b \<or> truthy (block_text b) then
        (case py_int (chat_id b) of
           Inl e \<Rightarrow> (Inl e, w)
         | Inr n \<Rightarrow>
             telegram_send t p blocks md
               (w\<lparr>outbox := outbox w @
                     [Get (api_root t @ ''/sendMessage'') [(''chat_id'', PInt n), (''text'', block_text b)]]\<rparr>))
      else if is_image b \<or> is_audio b \<or> is_video b then
        (let suffix = (if is_image b then ''sendPhoto'' else if is_audio b then ''sendAudio'' else ''sendVideo'');
             key = (if is_image b then ''photo'' else if is_audio b then ''audio'' else ''video'');
             call = Post (api_root t @ ''/'' @ suffix @ ''?chat_id='' @ py_str (chat_id b)) key (raw b);
             resp = post_response p call;
             w1 = w\<lparr>outbox := outbox w @ [call]\<rparr>
         in if status_code resp \<noteq> 200
            then (Inl (SteamshipError (MessageNotSent (response_text resp))),
                  w1\<lparr>error_log := error_log w1 @ [ErrorSendingMessage (response_text resp) (status_code resp)]\<rparr>)
            else telegram_send t p blocks md w1)
      else telegram_send t p blocks md (w\<lparr>error_log := error_log w @ [UnableToSend (mime_type b)]\<rparr>))"

text \<open>\<open>_get_file\<close> and \<open>_get_file_url\<close>.\<close>

definition get_file :: "TelegramTransport \<Rightarrow> provider \<Rightarrow> pyval \<Rightarrow> exn + pyval" where
  "get_file t p fid = py_getitem (get_json p (Get (api_root t @ ''/getFile'') [(''file_id'', fid)])) ''result''"

definition get_file_url :: "TelegramTransport \<Rightarrow> provider \<Rightarrow> pyval \<Rightarrow> exn + string" where
  "get_file_url t p fid =
     (case get_file t p fid of
        Inl e \<Rightarrow> Inl e
      | Inr res \<Rightarrow>
          (case py_getitem res ''file_path'' of
             Inl e \<Rightarrow> Inl e
           | Inr path \<Rightarrow> Inr (''https://api.telegram.org/file/bot'' @ bot_token t @ ''/'' @ py_str path)))"

text \<open>\<open>_parse_inbound\<close>: every \<open>raise\<close> is an \<open>Inl\<close>, \<open>return None\<close> is \<open>Inr None\<close>.\<close>

definition telegram_parse_inbound :: "TelegramTransport \<Rightarrow> provider \<Rightarrow> pyval \<Rightarrow> exn + block option" where
  "telegram_parse_inbound t p payload =
     (case py_get payload ''chat'' of
        Inl e \<Rightarrow> Inl e
      | Inr chat \<Rightarrow>
     if chat = PNone then Inl (SteamshipError NoChat) else
     (case py_get chat ''id'' of
        Inl e \<Rightarrow> Inl e
      | Inr cid \<Rightarrow>
     if cid = PNone then Inl (SteamshipError NoChatId) else
     if \<not> isinstance_int cid then Inl (SteamshipError BadChatId) else
     (case py_get payload ''message_id'' of
        Inl e \<Rightarrow> Inl e
      | Inr mid \<Rightarrow>
     if mid = PNone then Inl (SteamshipError NoMessageId) else
     if \<not> isinstance_int mid then Inl (SteamshipError BadMessageId) else
     (case py_get payload ''voice'' of
        Inl e \<Rightarrow> Inl e
      | Inr voice \<Rightarrow>
     (case (if truthy voice then Inr voice else py_get payload ''video_note'') of
        Inl e \<Rightarrow> Inl e
      | Inr video_or_voice \<Rightarrow>
     if truthy video_or_voice then
       (case py_get video_or_voice ''file_id'' of
          Inl e \<Rightarrow> Inl e
        | Inr fid \<Rightarrow>
       (case get_file_url t p fid of
          Inl e \<Rightarrow> Inl e
        | Inr file_url \<Rightarrow>
       (case py_get payload ''text'' of
          Inl e \<Rightarrow> Inl e
        | Inr txt \<Rightarrow>
       (case set_chat_id (PStr (py_str cid)) (Block txt (Some file_url)) of
          Inl e \<Rightarrow> Inl e
        | Inr block1 \<Rightarrow>
       (case set_message_id (PStr (py_str mid)) block1 of
          Inl e \<Rightarrow> Inl e
        | Inr block2 \<Rightarrow> Inr (Some block2))))))
     else
       (case py_get payload ''text'' of
          Inl e \<Rightarrow> Inl e
        | Inr message_text \<Rightarrow>
            if message_text \<noteq> PNone
            then (case set_chat_id (PStr (py_str cid)) (Block message_text None) of
                    Inl e \<Rightarrow> Inl e
                  | Inr result1 \<Rightarrow>
                 (case set_message_id (PStr (py_str mid)) result1 of
                    Inl e \<Rightarrow> Inl e
                  | Inr result2 \<Rightarrow> Inr (Some result2)))
            else Inr None))))))"

text \<open>
  \<open>build_emit_func\<close>: the closure over the chat id.  The loop sets the chat id block by
  block and stops at the first setter that raises; \<open>send\<close> is called after the loop.
\<close>

fun set_chat_ids :: "pyval \<Rightarrow> block list \<Rightarrow> exn + block list" where
  "set_chat_ids cid [] = Inr []"
| "set_chat_ids cid (b # blocks) =
     (case set_chat_id cid b of
        Inl e \<Rightarrow> Inl e
      | Inr b' \<Rightarrow>
          (case set_chat_ids cid blocks of
             Inl e \<Rightarrow> Inl e
           | Inr blocks' \<Rightarrow> Inr (b' # blocks')))"

definition build_emit_func :: "TelegramTransport \<Rightarrow> provider \<Rightarrow> pyval \<Rightarrow> EmitFunc" where
  "build_emit_func t p cid =
     (\<lambda>blocks md w.
        case set_chat_ids cid blocks of
          Inl e \<Rightarrow> (Inl e, w)
        | Inr blocks' \<Rightarrow> send (telegram_send t p) blocks' (Some md) w)"

text \<open>
  The body of the \<open>try\<close> statement of \<open>telegram_respond\<close>: \<open>Inl\<close> is the exception that
  reaches the handler, together with the world as it is at that moment.
\<close>

definition telegram_respond_try ::
  "TelegramTransport \<Rightarrow> AgentService \<Rightarrow> provider \<Rightarrow> pyval \<Rightarrow> pyval \<Rightarrow> world \<Rightarrow> (exn + unit) \<times> world" where
  "telegram_respond_try t svc p message cid w =
     (case telegram_parse_inbound t p message of
        Inl e \<Rightarrow> (Inl e, w)
      | Inr None \<Rightarrow> (Inr (), w)
      | Inr (Some incoming_message) \<Rightarrow>
          (let (context, w1) = build_default_context svc cid w;
               w2 = w1\<lparr>steamship :=
                      append_user_message (chat_history context) (block_text incoming_message)
                        (tags incoming_message) (steamship w1)\<rparr>;
               context = context\<lparr>emit_funcs := [build_emit_func t p cid]\<rparr>
           in (case run_agent (default_agent svc) context w2 of
                 (Inl e, w3) \<Rightarrow> (Inl e, w3)
               | (Inr None, w3) \<Rightarrow> (Inr (), w3)
               | (Inr (Some response), w3) \<Rightarrow> send (telegram_send t p) response None w3)))"

text \<open>
  \<open>telegram_respond\<close>.  The two \<open>get\<close> calls that read the chat id stand before the
  \<open>try\<close>, so what they raise leaves the endpoint; so does what the \<open>send\<close> inside the
  handler raises.  \<open>Inr ''OK''\<close> is the acknowledgement.
\<close>

definition telegram_respond ::
  "TelegramTransport \<Rightarrow> AgentService \<Rightarrow> provider \<Rightarrow> (string \<times> pyval) list \<Rightarrow> world \<Rightarrow> (exn + string) \<times> world" where
  "telegram_respond t svc p kwargs w =
     (let message = (case map_of kwargs ''message'' of None \<Rightarrow> PDict [] | Some m \<Rightarrow> m)
      in case py_get_default message ''chat'' (PDict []) of
           Inl e \<Rightarrow> (Inl e, w)
         | Inr chat \<Rightarrow>
        (case py_get chat ''id'' of
           Inl e \<Rightarrow> (Inl e, w)
         | Inr cid \<Rightarrow>
        (case telegram_respond_try t svc p message cid w of
           (Inr _, w') \<Rightarrow> (Inr ''OK'', w')
         | (Inl e, w') \<Rightarrow>
             (let response = response_for_exception e cid
              in if cid \<noteq> PNone
                 then (case send (telegram_send t p) [response] None w' of
                         (Inl e', w'') \<Rightarrow> (Inl e', w'')
                       | (Inr _, w'') \<Rightarrow> (Inr ''OK'', w''))
                 else (Inr ''OK'', w')))))"

section \<open>steamship_widget.py\<close>

text \<open>\<open>_send\<close> does nothing; \<open>save_for_emit\<close> assigns the buffer.\<close>

definition widget_send :: "block list \<Rightarrow> Metadata \<Rightarrow> world \<Rightarrow> (exn + unit) \<times> world" where
  "widget_send blocks md w = (Inr (), w)"

definition save_for_emit :: EmitFunc where
  "save_for_emit blocks md w = (Inr (), w\<lparr>message_output := Some blocks\<rparr>)"

text \<open>\<open>_parse_inbound\<close>; the fresh \<open>uuid.uuid4()\<close> is an argument.\<close>

definition widget_parse_inbound :: "pyval \<Rightarrow> string \<Rightarrow> exn + block option" where
  "widget_parse_inbound payload uuid4 =
     (case py_get payload ''question'' of
        Inl e \<Rightarrow> Inl e
      | Inr message_text \<Rightarrow>
     if message_text = PNone then Inl (SteamshipError NoQuestion) else
     (case py_get_default payload ''chat_session_id'' (PStr ''default'') of
        Inl e \<Rightarrow> Inl e
      | Inr cid \<Rightarrow>
     (case set_chat_id (PStr (py_str cid)) (Block message_text None) of
        Inl e \<Rightarrow> Inl e
      | Inr result1 \<Rightarrow>
     (case set_message_id (PStr (py_str (PStr uuid4))) result1 of
        Inl e \<Rightarrow> Inl e
      | Inr result2 \<Rightarrow> Inr (Some result2)))))"

text \<open>
  \<open>answer\<close>.  Only the agent run stands inside the \<open>try\<close>.  Reading \<open>self.message_output\<close>
  on an instance that never assigned it raises \<open>AttributeError\<close>, as does reading
  \<open>chat_id\<close> of \<open>None\<close>.
\<close>

definition answer ::
  "AgentService \<Rightarrow> (string \<times> pyval) list \<Rightarrow> string \<Rightarrow> world \<Rightarrow> (exn + block list) \<times> world" where
  "answer svc payload uuid4 w =
     (case widget_parse_inbound (PDict payload) uuid4 of
        Inl e \<Rightarrow> (Inl e, w)
      | Inr None \<Rightarrow> (Inl AttributeError, w)
      | Inr (Some incoming_message) \<Rightarrow>
          (let (context, w1) = build_default_context svc (chat_id incoming_message) w;
               w2 = w1\<lparr>steamship :=
                      append_user_message (chat_history context) (block_text incoming_message)
                        (tags incoming_message) (steamship w1)\<rparr>;
               context = context\<lparr>emit_funcs := [save_for_emit]\<rparr>;
               w4 = (case run_agent (default_agent svc) context w2 of
                       (Inl e, w3) \<Rightarrow>
                         w3\<lparr>message_output := Some [response_for_exception e (chat_id incoming_message)]\<rparr>
                     | (Inr _, w3) \<Rightarrow> w3)
           in (case message_output w4 of
                 None \<Rightarrow> (Inl AttributeError, w4)
               | Some out \<Rightarrow> (Inr out, w4))))"

section \<open>Notions the claims speak of\<close>

text \<open>
  A payload misses \<open>chat.id\<close> when it is a dict whose \<open>chat\<close> is absent or \<open>None\<close>, or
  whose \<open>chat\<close> is a dict with \<open>id\<close> absent or \<open>None\<close>.
\<close>

definition missing_chat_id :: "pyval \<Rightarrow> bool" where
  "missing_chat_id payload =
     (case py_get payload ''chat'' of
        Inl _ \<Rightarrow> False
      | Inr chat \<Rightarrow> chat = PNone \<or> py_get chat ''id'' = Inr PNone)"

text \<open>A payload has valid ids when \<open>chat.id\<close> and \<open>message_id\<close> are both there and integers.\<close>

definition valid_ids :: "pyval \<Rightarrow> bool" where
  "valid_ids payload =
     (case py_get payload ''chat'' of
        Inl _ \<Rightarrow> False
      | Inr chat \<Rightarrow>
          (case py_get chat ''id'' of
             Inl _ \<Rightarrow> False
           | Inr cid \<Rightarrow>
               isinstance_int cid \<and>
               (case py_get payload ''message_id'' of
                  Inl _ \<Rightarrow> False
                | Inr mid \<Rightarrow> isinstance_int mid)))"

text \<open>The value of \<open>payload.get("voice") or payload.get("video_note")\<close>.\<close>

definition attachment :: "pyval \<Rightarrow> pyval" where
  "attachment payload =
     (case py_get payload ''voice'' of
        Inl _ \<Rightarrow> PNone
      | Inr voice \<Rightarrow>
          if truthy voice then voice
          else (case py_get payload ''video_note'' of Inl _ \<Rightarrow> PNone | Inr vnote \<Rightarrow> vnote))"

text \<open>Concrete inputs for the examples.\<close>

definition sample_transport :: TelegramTransport where
  "sample_transport = \<lparr>api_root = ''https://api.telegram.org/botT0KEN'', bot_token = ''T0KEN''\<rparr>"

definition sample_provider :: provider where
  "sample_provider =
     \<lparr>get_json = (\<lambda>call. PDict [(''ok'', PBool True), (''result'', PDict [(''file_path'', PStr ''voice/file_0.oga'')])]),
      post_response = (\<lambda>call. \<lparr>status_code = 200, response_text = ''ok''\<rparr>)\<rparr>"

definition failing_provider :: provider where
  "failing_provider =
     \<lparr>get_json = (\<lambda>call. PDict [(''ok'', PBool False), (''error_code'', PInt 400)]),
      post_response = (\<lambda>call. \<lparr>status_code = 400, response_text = ''Bad Request''\<rparr>)\<rparr>"

definition empty_platform :: platform where
  "empty_platform = \<lparr>histories = [], action_caches = [], llm_caches = [], next_id = 0\<rparr>"

definition empty_world :: world where
  "empty_world =
     \<lparr>outbox = [], error_log = [], steamship = empty_platform, agent_runs = 0, message_output = None\<rparr>"

definition sample_service :: AgentService where
  "sample_service =
     \<lparr>service_client = ''workspace'', use_llm_cache = Some False, use_action_cache = Some False,
      default_agent = Return None\<rparr>"

text \<open>
  A request of \<open>_send\<close> is addressed to a chat id when it is a \<open>sendMessage\<close> whose
  \<open>chat_id\<close> parameter is \<open>int\<close> of that id, or a media upload whose URL ends in
  \<open>?chat_id=\<close> and the id.
\<close>

definition addressed_to :: "TelegramTransport \<Rightarrow> pyval \<Rightarrow> api_call \<Rightarrow> bool" where
  "addressed_to t cid call =
     (case call of
        Get u params \<Rightarrow>
          u = api_root t @ ''/sendMessage'' \<and>
          (case py_int cid of Inl _ \<Rightarrow> False | Inr n \<Rightarrow> map_of params ''chat_id'' = Some (PInt n))
      | Post u key bytes \<Rightarrow>
          list_ex (\<lambda>suffix. u = api_root t @ ''/'' @ suffix @ ''?chat_id='' @ py_str cid)
            [''sendPhoto'', ''sendAudio'', ''sendVideo''])"

text \<open>The upload \<open>_send\<close> makes for an image, audio or video block.\<close>

definition media_call :: "TelegramTransport \<Rightarrow> block \<Rightarrow> api_call" where
  "media_call t b =
     Post (api_root t @ ''/'' @
             (if is_image b then ''sendPhoto'' else if is_audio b then ''sendAudio'' else ''sendVideo'')
             @ ''?chat_id='' @ py_str (chat_id b))
          (if is_image b then ''photo'' else if is_audio b then ''audio'' else ''video'')
          (raw b)"

text \<open>
  The keyword arguments of \<open>telegram_respond\<close> have the shape of a Telegram update when
  \<open>message\<close> is absent or a dict, its \<open>chat\<close> is absent or a dict, and the chat's \<open>id\<close> is
  absent, \<open>None\<close> or an integer.
\<close>

definition update_shaped :: "(string \<times> pyval) list \<Rightarrow> bool" where
  "update_shaped kwargs =
     (case py_get_default (case map_of kwargs ''message'' of None \<Rightarrow> PDict [] | Some m \<Rightarrow> m)
             ''chat'' (PDict []) of
        Inl _ \<Rightarrow> False
      | Inr chat \<Rightarrow>
          (case py_get chat ''id'' of
             Inl _ \<Rightarrow> False
           | Inr cid \<Rightarrow> cid = PNone \<or> isinstance_int cid))"

text \<open>The world in which \<open>answer\<close> starts the agent: context resolved, user message appended.\<close>

definition contextualized :: "AgentService \<Rightarrow> block \<Rightarrow> world \<Rightarrow> world" where
  "contextualized svc m w =
     (snd (build_default_context svc (chat_id m) w))
       \<lparr>steamship :=
          append_user_message (chat_history (fst (build_default_context svc (chat_id m) w)))
            (block_text m) (tags m) (steamship (snd (build_default_context svc (chat_id m) w)))\<rparr>"

text \<open>More concrete inputs: Telegram messages, and a provider whose file path echoes the file id.\<close>

definition voice_message :: pyval where
  "voice_message =
     PDict [(''message_id'', PInt 7), (''chat'', PDict [(''id'', PInt 42), (''type'', PStr ''private'')]),
            (''voice'', PDict [(''file_id'', PStr ''AwACAg''), (''duration'', PInt 3)])]"

definition join_message :: pyval where
  "join_message =
     PDict [(''message_id'', PInt 7), (''chat'', PDict [(''id'', PInt 42), (''type'', PStr ''group'')]),
            (''new_chat_members'', PList [PDict [(''id'', PInt 5)]])]"

definition echo_provider :: provider where
  "echo_provider =
     \<lparr>get_json = (\<lambda>call. case call of
                      Get u params \<Rightarrow>
                        PDict [(''ok'', PBool True),
                               (''result'', PDict [(''file_path'',
                                  (case map_of params ''file_id'' of None \<Rightarrow> PNone | Some v \<Rightarrow> v))])]
                    | Post u key bytes \<Rightarrow> PNone),
      post_response = (\<lambda>call. \<lparr>status_code = 200, response_text = ''ok''\<rparr>)\<rparr>"

section \<open>Blocks\<close>

text \<open>On a new block both setters store.\<close>

lemma set_chat_id_Block [simp]:
  "set_chat_id v (Block t u) = Inr (with_chat_id v (Block t u))"
  by (simp add: set_chat_id_def chat_id_def Block_def)

lemma set_message_id_new [simp]:
  "set_message_id m (with_chat_id v (Block t u)) = Inr (with_message_id m (with_chat_id v (Block t u)))"
  by (simp add: set_message_id_def message_id_def with_chat_id_def Block_def)

section \<open>Resolving an agent context\<close>

lemma ChatHistory_get_or_create_entries:
  "history_entries (snd (ChatHistory_get_or_create c k tgs s pf)) k' = history_entries pf k'"
  by (auto simp: ChatHistory_get_or_create_def history_entries_def split: option.splits if_splits)

lemma ChatHistory_get_or_create_caches:
  "action_caches (snd (ChatHistory_get_or_create c k tgs s pf)) = action_caches pf"
  "llm_caches (snd (ChatHistory_get_or_create c k tgs s pf)) = llm_caches pf"
  by (auto simp: ChatHistory_get_or_create_def split: option.splits)

lemma ActionCache_get_or_create_frame:
  "histories (snd (ActionCache_get_or_create c k pf)) = histories pf"
  "llm_caches (snd (ActionCache_get_or_create c k pf)) = llm_caches pf"
  "action_cache_contents (snd (ActionCache_get_or_create c k pf)) k' = action_cache_contents pf k'"
  by (auto simp: ActionCache_get_or_create_def action_cache_contents_def split: option.splits if_splits)

lemma LLMCache_get_or_create_frame:
  "histories (snd (LLMCache_get_or_create c k pf)) = histories pf"
  "action_caches (snd (LLMCache_get_or_create c k pf)) = action_caches pf"
  "llm_cache_contents (snd (LLMCache_get_or_create c k pf)) k' = llm_cache_contents pf k'"
  by (auto simp: LLMCache_get_or_create_def llm_cache_contents_def split: option.splits if_splits)

text \<open>The platform and the context that \<open>AgentContext.get_or_create\<close> returns, step by step.\<close>

lemma get_or_create_platform:
  "snd (AgentContext_get_or_create c k tgs s ul ua pf) =
     (let pf1 = snd (ChatHistory_get_or_create c k tgs s pf);
          pf2 = (if flag_set ua then snd (ActionCache_get_or_create c k pf1) else pf1)
      in if flag_set ul then snd (LLMCache_get_or_create c k pf2) else pf2)"
  by (simp add: AgentContext_get_or_create_def Let_def split: prod.splits)

lemma get_or_create_context:
  "fst (AgentContext_get_or_create c k tgs s ul ua pf) =
     (let pf1 = snd (ChatHistory_get_or_create c k tgs s pf);
          pf2 = (if flag_set ua then snd (ActionCache_get_or_create c k pf1) else pf1)
      in \<lparr>metadata = [], client = c, chat_history = fst (ChatHistory_get_or_create c k tgs s pf),
          completed_steps = [], emit_funcs = [],
          action_cache = (if flag_set ua then Some (fst (ActionCache_get_or_create c k pf1)) else None),
          llm_cache = (if flag_set ul then Some (fst (LLMCache_get_or_create c k pf2)) else None)\<rparr>)"
  by (simp add: AgentContext_get_or_create_def Let_def split: prod.splits)

lemma get_or_create_histories:
  "histories (snd (AgentContext_get_or_create c k tgs s ul ua pf)) =
   histories (snd (ChatHistory_get_or_create c k tgs s pf))"
  by (simp add: get_or_create_platform Let_def ActionCache_get_or_create_frame LLMCache_get_or_create_frame)

text \<open>
  C3.  Whatever the client, the context keys, the tags and the two flags,
  \<open>AgentContext.get_or_create\<close> returns a context whose action cache is set exactly when
  \<open>use_action_cache\<close> is \<open>True\<close>, whose LLM cache is set exactly when \<open>use_llm_cache\<close> is
  \<open>True\<close>, and whose metadata, completed steps and emission callbacks are all empty.
\<close>

theorem get_or_create_cache_flags:
  "(action_cache (fst (AgentContext_get_or_create c k tgs s ul ua pf)) \<noteq> None) = (ua = Some True)
   \<and> (llm_cache (fst (AgentContext_get_or_create c k tgs s ul ua pf)) \<noteq> None) = (ul = Some True)
   \<and> metadata (fst (AgentContext_get_or_create c k tgs s ul ua pf)) = []
   \<and> completed_steps (fst (AgentContext_get_or_create c k tgs s ul ua pf)) = []
   \<and> emit_funcs (fst (AgentContext_get_or_create c k tgs s ul ua pf)) = []"
  by (simp add: get_or_create_context Let_def flag_set_def)

theorem get_or_create_cache_flags_example:
  "action_cache (fst (AgentContext_get_or_create ''workspace'' [(''id'', ''abc'')] None True (Some True) None empty_platform)) = None
   \<and> llm_cache (fst (AgentContext_get_or_create ''workspace'' [(''id'', ''abc'')] None True (Some True) None empty_platform)) \<noteq> None
   \<and> emit_funcs (fst (AgentContext_get_or_create ''workspace'' [(''id'', ''abc'')] None True (Some True) None empty_platform)) = []"
  using get_or_create_cache_flags [of "''workspace''" "[(''id'', ''abc'')]" None True "Some True" None empty_platform]
  by simp

lemma ChatHistory_get_or_create_again:
  "map_of (histories (snd (ChatHistory_get_or_create c k tgs s pf))) (c, k) = Some lg
     \<Longrightarrow> log_id lg = file_id (fst (ChatHistory_get_or_create c k tgs s pf))"
  by (auto simp: ChatHistory_get_or_create_def split: option.splits)

lemma ChatHistory_get_or_create_present:
  "map_of (histories (snd (ChatHistory_get_or_create c k tgs s pf))) (c, k) \<noteq> None"
  by (auto simp: ChatHistory_get_or_create_def map_add_def split: option.splits)

text \<open>
  C4.  Two calls of \<open>AgentContext.get_or_create\<close> with the same client and context keys
  (tags and flags may differ) return contexts with the same \<open>id\<close>, the id of the underlying
  chat-history log, and the second call leaves the list of logs as the first call left it:
  no second log is created.
\<close>

theorem get_or_create_idempotent:
  "context_id (fst (AgentContext_get_or_create c k tgs2 s2 ul2 ua2
                     (snd (AgentContext_get_or_create c k tgs1 s1 ul1 ua1 pf))))
     = context_id (fst (AgentContext_get_or_create c k tgs1 s1 ul1 ua1 pf))
   \<and> histories (snd (AgentContext_get_or_create c k tgs2 s2 ul2 ua2
                       (snd (AgentContext_get_or_create c k tgs1 s1 ul1 ua1 pf))))
     = histories (snd (AgentContext_get_or_create c k tgs1 s1 ul1 ua1 pf))"
proof -
  let ?r1 = "AgentContext_get_or_create c k tgs1 s1 ul1 ua1 pf"
  let ?h1 = "ChatHistory_get_or_create c k tgs1 s1 pf"
  have h: "histories (snd ?r1) = histories (snd ?h1)"
    by (rule get_or_create_histories)
  obtain lg where lg: "map_of (histories (snd ?r1)) (c, k) = Some lg"
    using ChatHistory_get_or_create_present [of c k tgs1 s1 pf] h by auto
  then have id: "log_id lg = file_id (fst ?h1)"
    using ChatHistory_get_or_create_again [of c k tgs1 s1 pf lg] h by simp
  have again: "ChatHistory_get_or_create c k tgs2 s2 (snd ?r1) =
      (\<lparr>history_of = (c, k), file_id = log_id lg\<rparr>, snd ?r1)"
    using lg by (simp add: ChatHistory_get_or_create_def)
  show ?thesis
    by (simp add: context_id_def get_or_create_context get_or_create_histories Let_def again id)
qed

theorem get_or_create_idempotent_example:
  "context_id (fst (AgentContext_get_or_create ''workspace'' [(''id'', ''abc'')] None True (Some True) (Some True)
                     (snd (AgentContext_get_or_create ''workspace'' [(''id'', ''abc'')] None True None None empty_platform))))
     = context_id (fst (AgentContext_get_or_create ''workspace'' [(''id'', ''abc'')] None True None None empty_platform))
   \<and> length (histories (snd (AgentContext_get_or_create ''workspace'' [(''id'', ''abc'')] None True (Some True) (Some True)
                       (snd (AgentContext_get_or_create ''workspace'' [(''id'', ''abc'')] None True None None empty_platform)))))
     = 1"
  using get_or_create_idempotent [of "''workspace''" "[(''id'', ''abc'')]" None True "Some True" "Some True" None True None None empty_platform]
  by (simp add: get_or_create_histories ChatHistory_get_or_create_def empty_platform_def)

text \<open>
  C5.  \<open>AgentContext.get_or_create\<close> leaves the entries of every conversation's chat
  history and the contents of both caches of every conversation as they were: it appends
  nothing and writes to no cache.
\<close>

theorem get_or_create_preserves_contents:
  "history_entries (snd (AgentContext_get_or_create c k tgs s ul ua pf)) k' = history_entries pf k'
   \<and> action_cache_contents (snd (AgentContext_get_or_create c k tgs s ul ua pf)) k' = action_cache_contents pf k'
   \<and> llm_cache_contents (snd (AgentContext_get_or_create c k tgs s ul ua pf)) k' = llm_cache_contents pf k'"
proof -
  let ?pf1 = "snd (ChatHistory_get_or_create c k tgs s pf)"
  let ?pf2 = "if flag_set ua then snd (ActionCache_get_or_create c k ?pf1) else ?pf1"
  let ?pf3 = "if flag_set ul then snd (LLMCache_get_or_create c k ?pf2) else ?pf2"
  have pf3: "snd (AgentContext_get_or_create c k tgs s ul ua pf) = ?pf3"
    by (simp add: get_or_create_platform Let_def)
  have h: "history_entries ?pf3 k' = history_entries pf k'"
    by (simp add: history_entries_def ActionCache_get_or_create_frame LLMCache_get_or_create_frame
          ChatHistory_get_or_create_entries [unfolded history_entries_def])
  have a: "action_cache_contents ?pf3 k' = action_cache_contents pf k'"
    by (simp add: action_cache_contents_def ActionCache_get_or_create_frame(3) [unfolded action_cache_contents_def]
          LLMCache_get_or_create_frame ChatHistory_get_or_create_caches)
  have l: "llm_cache_contents ?pf3 k' = llm_cache_contents pf k'"
    by (simp add: llm_cache_contents_def LLMCache_get_or_create_frame(3) [unfolded llm_cache_contents_def]
          ActionCache_get_or_create_frame ChatHistory_get_or_create_caches)
  show ?thesis
    unfolding pf3 using h a l by blast
qed

theorem get_or_create_preserves_contents_example:
  "history_entries (snd (AgentContext_get_or_create ''workspace'' [(''id'', ''abc'')] None True (Some True) (Some True) empty_platform))
     (''workspace'', [(''id'', ''abc'')]) = []
   \<and> action_cache_contents (snd (AgentContext_get_or_create ''workspace'' [(''id'', ''abc'')] None True (Some True) (Some True) empty_platform))
     (''workspace'', [(''id'', ''abc'')]) = []
   \<and> llm_cache_contents (snd (AgentContext_get_or_create ''workspace'' [(''id'', ''abc'')] None True (Some True) (Some True) empty_platform))
     (''workspace'', [(''id'', ''abc'')]) = []"
  using get_or_create_preserves_contents [of "''workspace''" "[(''id'', ''abc'')]" None True "Some True" "Some True" empty_platform
      "(''workspace'', [(''id'', ''abc'')])"]
  by (simp add: history_entries_def action_cache_contents_def llm_cache_contents_def empty_platform_def)

section \<open>Parsing a Telegram message\<close>

lemma isinstance_int_not_None: "isinstance_int v \<Longrightarrow> v \<noteq> PNone"
  by (cases v) auto

lemma valid_ids_dict:
  assumes "valid_ids payload"
  obtains kvs chat cid mid where "payload = PDict kvs"
    and "py_get (PDict kvs) ''chat'' = Inr chat" and "chat \<noteq> PNone"
    and "py_get chat ''id'' = Inr cid" and "isinstance_int cid" and "cid \<noteq> PNone"
    and "py_get (PDict kvs) ''message_id'' = Inr mid" and "isinstance_int mid" and "mid \<noteq> PNone"
proof -
  obtain kvs where payload: "payload = PDict kvs"
    using assms by (cases payload) (auto simp: valid_ids_def)
  obtain chat where chat: "py_get (PDict kvs) ''chat'' = Inr chat"
    by simp
  obtain cid where cid: "py_get chat ''id'' = Inr cid" "isinstance_int cid"
    using assms chat unfolding payload valid_ids_def by (auto split: sum.splits)
  obtain mid where mid: "py_get (PDict kvs) ''message_id'' = Inr mid" "isinstance_int mid"
    using assms chat cid unfolding payload valid_ids_def by (auto split: sum.splits)
  have "chat \<noteq> PNone" using cid(1) by auto
  then show thesis
    using that payload chat cid mid isinstance_int_not_None by blast
qed

text \<open>Once the ids have passed the checks, parsing depends on the attachment and the text only.\<close>

lemma parse_valid_ids:
  assumes "valid_ids payload"
  shows "telegram_parse_inbound t p payload =
     (case py_get payload ''chat'' of Inl e \<Rightarrow> Inl e | Inr chat \<Rightarrow>
      case py_get chat ''id'' of Inl e \<Rightarrow> Inl e | Inr cid \<Rightarrow>
      case py_get payload ''message_id'' of Inl e \<Rightarrow> Inl e | Inr mid \<Rightarrow>
      case py_get payload ''text'' of Inl e \<Rightarrow> Inl e | Inr message_text \<Rightarrow>
        if truthy (attachment payload) then
          (case py_get (attachment payload) ''file_id'' of
             Inl e \<Rightarrow> Inl e
           | Inr fid \<Rightarrow>
               (case get_file_url t p fid of
                  Inl e \<Rightarrow> Inl e
                | Inr file_url \<Rightarrow>
                    Inr (Some (with_message_id (PStr (py_str mid))
                                (with_chat_id (PStr (py_str cid)) (Block message_text (Some file_url)))))))
        else if message_text \<noteq> PNone
          then Inr (Some (with_message_id (PStr (py_str mid))
                           (with_chat_id (PStr (py_str cid)) (Block message_text None))))
          else Inr None)"
proof -
  from assms obtain kvs chat cid mid where f: "payload = PDict kvs"
     "py_get (PDict kvs) ''chat'' = Inr chat" "chat \<noteq> PNone"
     "py_get chat ''id'' = Inr cid" "isinstance_int cid" "cid \<noteq> PNone"
     "py_get (PDict kvs) ''message_id'' = Inr mid" "isinstance_int mid" "mid \<noteq> PNone"
    by (rule valid_ids_dict)
  obtain voice vnote tx where g: "py_get (PDict kvs) ''voice'' = Inr voice"
     "py_get (PDict kvs) ''video_note'' = Inr vnote" "py_get (PDict kvs) ''text'' = Inr tx"
    by simp
  have att: "attachment (PDict kvs) = (if truthy voice then voice else vnote)"
    unfolding attachment_def g by simp
  show ?thesis
    unfolding f(1) telegram_parse_inbound_def
    using f(3,5,6,8,9) by (simp del: py_get.simps add: att f(2) f(4) f(7) g split: sum.splits)
qed

lemma parse_missing_chat_id:
  assumes "missing_chat_id payload"
  shows "telegram_parse_inbound t p payload = Inl (SteamshipError NoChat)
       \<or> telegram_parse_inbound t p payload = Inl (SteamshipError NoChatId)"
proof -
  obtain chat where chat: "py_get payload ''chat'' = Inr chat"
    using assms by (auto simp: missing_chat_id_def split: sum.splits)
  have "chat = PNone \<or> py_get chat ''id'' = Inr PNone"
    using assms chat by (simp add: missing_chat_id_def)
  then show ?thesis
    unfolding telegram_parse_inbound_def chat by auto
qed

lemma parse_attachment:
  assumes "valid_ids payload" "truthy (attachment payload)"
    and "py_get (attachment payload) ''file_id'' = Inr fid"
    and "get_file_url t p fid = Inr u"
  shows "\<exists>b. telegram_parse_inbound t p payload = Inr (Some b)
           \<and> py_get payload ''text'' = Inr (block_text b) \<and> url b = Some u"
proof -
  from assms(1) obtain kvs chat cid mid where f: "payload = PDict kvs"
     "py_get (PDict kvs) ''chat'' = Inr chat" "py_get chat ''id'' = Inr cid"
     "py_get (PDict kvs) ''message_id'' = Inr mid"
    by (rule valid_ids_dict)
  obtain tx where tx: "py_get (PDict kvs) ''text'' = Inr tx"
    by simp
  have "telegram_parse_inbound t p payload =
      Inr (Some (with_message_id (PStr (py_str mid)) (with_chat_id (PStr (py_str cid)) (Block tx (Some u)))))"
    unfolding parse_valid_ids [OF assms(1)]
    using assms(2-4) unfolding f(1) by (simp del: py_get.simps add: f(2-4) tx)
  then show ?thesis
    unfolding f(1) tx by (simp del: py_get.simps add: Block_def with_chat_id_def with_message_id_def)
qed

lemma parse_no_content:
  assumes "valid_ids payload" "\<not> truthy (attachment payload)"
    and "py_get payload ''text'' = Inr PNone"
  shows "telegram_parse_inbound t p payload = Inr None"
proof -
  from assms(1) obtain kvs chat cid mid where f: "payload = PDict kvs"
     "py_get (PDict kvs) ''chat'' = Inr chat" "py_get chat ''id'' = Inr cid"
     "py_get (PDict kvs) ''message_id'' = Inr mid"
    by (rule valid_ids_dict)
  show ?thesis
    unfolding parse_valid_ids [OF assms(1)]
    using assms(2,3) unfolding f(1) by (simp del: py_get.simps add: f(2-4))
qed

text \<open>
  C2, as the code has it.  Parsing a payload whose \<open>chat\<close> is absent or \<open>None\<close>, or whose
  \<open>chat\<close> is a dict without an \<open>id\<close>, raises a \<open>SteamshipError\<close>.  And for every payload
  with integer \<open>chat.id\<close> and \<open>message_id\<close> whose attachment (\<open>voice\<close> when that is
  non-empty, else \<open>video_note\<close>) is a non-empty dict, and for which resolving the
  attachment's \<open>file_id\<close> yields a URL, parsing yields a block whose text is the payload's
  \<open>text\<close> field (\<open>None\<close> when absent) and whose url is that URL.
\<close>

theorem telegram_parse_inbound_checked:
  "(missing_chat_id payload \<longrightarrow>
      telegram_parse_inbound t p payload = Inl (SteamshipError NoChat)
      \<or> telegram_parse_inbound t p payload = Inl (SteamshipError NoChatId))
   \<and> (valid_ids payload \<and> truthy (attachment payload)
        \<and> py_get (attachment payload) ''file_id'' = Inr fid \<and> get_file_url t p fid = Inr u \<longrightarrow>
      (\<exists>b. telegram_parse_inbound t p payload = Inr (Some b)
          \<and> py_get payload ''text'' = Inr (block_text b) \<and> url b = Some u))"
  using parse_missing_chat_id [of payload t p] parse_attachment [of payload fid t p u]
  by blast

theorem telegram_parse_inbound_checked_example:
  "telegram_parse_inbound sample_transport sample_provider (PDict [(''message_id'', PInt 7), (''text'', PStr ''hi'')])
     = Inl (SteamshipError NoChat)
   \<and> (\<exists>b. telegram_parse_inbound sample_transport sample_provider voice_message = Inr (Some b)
         \<and> block_text b = PNone
         \<and> url b = Some ''https://api.telegram.org/file/botT0KEN/voice/file_0.oga'')"
  using telegram_parse_inbound_checked [of "PDict [(''message_id'', PInt 7), (''text'', PStr ''hi'')]"
      sample_transport sample_provider "PStr ''AwACAg''"
      "''https://api.telegram.org/file/botT0KEN/voice/file_0.oga''"]
    telegram_parse_inbound_checked [of voice_message
      sample_transport sample_provider "PStr ''AwACAg''"
      "''https://api.telegram.org/file/botT0KEN/voice/file_0.oga''"]
  by (simp add: missing_chat_id_def valid_ids_def attachment_def voice_message_def
        get_file_url_def get_file_def sample_provider_def sample_transport_def py_str_def
        telegram_parse_inbound_def)

text \<open>
  C2 as stated fails at four payloads: one that carries \<open>voice.file_id\<close> but no \<open>chat\<close>
  raises instead of yielding a block; a voice message whose file lookup Telegram answers
  without a \<open>result\<close> raises \<open>KeyError\<close>; a payload with a non-empty \<open>voice\<close> lacking
  \<open>file_id\<close> next to a \<open>video_note\<close> that carries one gets the URL resolved from \<open>None\<close>,
  not from the video note's file id; and a payload whose \<open>chat\<close> is a number, so has no
  \<open>chat.id\<close>, raises \<open>AttributeError\<close> and not the malformed-payload error.
\<close>

theorem telegram_parse_inbound_unchecked_fails:
  "telegram_parse_inbound sample_transport sample_provider
      (PDict [(''message_id'', PInt 7), (''voice'', PDict [(''file_id'', PStr ''AwACAg'')])])
     = Inl (SteamshipError NoChat)
   \<and> telegram_parse_inbound sample_transport failing_provider voice_message = Inl (KeyError ''result'')
   \<and> (case telegram_parse_inbound sample_transport echo_provider
              (PDict [(''message_id'', PInt 7), (''chat'', PDict [(''id'', PInt 42)]),
                      (''voice'', PDict [(''duration'', PInt 3)]),
                      (''video_note'', PDict [(''file_id'', PStr ''DQACAg'')])]) of
         Inr (Some b) \<Rightarrow> url b
       | _ \<Rightarrow> None)
     = Some ''https://api.telegram.org/file/botT0KEN/None''
   \<and> telegram_parse_inbound sample_transport sample_provider
        (PDict [(''message_id'', PInt 7), (''chat'', PInt 5), (''text'', PStr ''hi'')])
     = Inl AttributeError"
  by (simp add: telegram_parse_inbound_def voice_message_def get_file_url_def get_file_def
        sample_provider_def failing_provider_def echo_provider_def sample_transport_def
        py_str_def set_chat_id_def set_message_id_def chat_id_def message_id_def
        with_chat_id_def with_message_id_def Block_def)

text \<open>
  C7.  For every payload with integer \<open>chat.id\<close> and \<open>message_id\<close> that has no text
  (\<open>text\<close> absent or \<open>None\<close>) and no attachment (\<open>voice\<close> and \<open>video_note\<close> absent or
  empty), parsing returns \<open>None\<close> without raising, and \<open>telegram_respond\<close> on an update with
  that message returns \<open>OK\<close> and leaves the world as it was: nothing is appended to a chat
  history, no agent runs, nothing is sent.
\<close>

theorem telegram_respond_no_content:
  assumes "valid_ids payload" "\<not> truthy (attachment payload)"
    and "py_get payload ''text'' = Inr PNone"
    and "map_of kwargs ''message'' = Some payload"
  shows "telegram_parse_inbound t p payload = Inr None
       \<and> telegram_respond t svc p kwargs w = (Inr ''OK'', w)"
proof -
  have parse: "telegram_parse_inbound t p payload = Inr None"
    using assms(1-3) by (rule parse_no_content)
  from assms(1) obtain kvs chat cid where f: "payload = PDict kvs"
     "py_get (PDict kvs) ''chat'' = Inr chat" "chat \<noteq> PNone" "py_get chat ''id'' = Inr cid"
    by (rule valid_ids_dict)
  have dflt: "py_get_default payload ''chat'' (PDict []) = Inr chat"
    using f(2,3) unfolding f(1) by (auto split: option.splits)
  show ?thesis
    by (simp add: parse telegram_respond_def assms(4) dflt f(4) telegram_respond_try_def)
qed

theorem telegram_respond_no_content_example:
  "telegram_parse_inbound sample_transport sample_provider join_message = Inr None
   \<and> telegram_respond sample_transport sample_service sample_provider [(''update_id'', PInt 1), (''message'', join_message)] empty_world
       = (Inr ''OK'', empty_world)"
  using telegram_respond_no_content [of join_message "[(''update_id'', PInt 1), (''message'', join_message)]"
      sample_transport sample_provider sample_service empty_world]
  by (simp add: valid_ids_def attachment_def join_message_def)

section \<open>Sending through Telegram\<close>

lemma chat_id_with_chat_id: "chat_id (with_chat_id cid b) = cid"
  by (simp add: chat_id_def with_chat_id_def update_conv')

text \<open>
  Every request \<open>_send\<close> makes is added at the end of the outbox, and when all blocks carry
  one chat id every request is addressed to it.
\<close>

lemma telegram_send_addressed:
  "list_all (\<lambda>b. chat_id b = cid) blocks \<Longrightarrow>
     \<exists>calls. outbox (snd (telegram_send t p blocks md w)) = outbox w @ calls
            \<and> list_all (addressed_to t cid) calls"
proof (induction blocks arbitrary: w)
  case Nil
  then show ?case by simp
next
  case (Cons b blocks)
  then have b: "chat_id b = cid" and rest: "list_all (\<lambda>b. chat_id b = cid) blocks"
    by simp_all
  note IH = Cons.IH [OF rest]
  consider (message) "is_text b \<or> truthy (block_text b)"
    | (media) "\<not> (is_text b \<or> truthy (block_text b))" "is_image b \<or> is_audio b \<or> is_video b"
    | (other) "\<not> (is_text b \<or> truthy (block_text b))" "\<not> (is_image b \<or> is_audio b \<or> is_video b)"
    by blast
  then show ?case
  proof cases
    case message
    show ?thesis
    proof (cases "py_int cid")
      case (Inl e)
      with message b show ?thesis by simp
    next
      case (Inr n)
      let ?call = "Get (api_root t @ ''/sendMessage'') [(''chat_id'', PInt n), (''text'', block_text b)]"
      obtain calls where c: "outbox (snd (telegram_send t p blocks md (w\<lparr>outbox := outbox w @ [?call]\<rparr>)))
           = (outbox w @ [?call]) @ calls" "list_all (addressed_to t cid) calls"
        using IH [of "w\<lparr>outbox := outbox w @ [?call]\<rparr>"] by auto
      have "addressed_to t cid ?call"
        by (simp add: addressed_to_def Inr)
      with c message b Inr show ?thesis
        by (intro exI [of _ "?call # calls"]) simp
    qed
  next
    case media
    let ?suffix = "if is_image b then ''sendPhoto'' else if is_audio b then ''sendAudio'' else ''sendVideo''"
    let ?key = "if is_image b then ''photo'' else if is_audio b then ''audio'' else ''video''"
    let ?call = "Post (api_root t @ ''/'' @ ?suffix @ ''?chat_id='' @ py_str cid) ?key (raw b)"
    have a: "addressed_to t cid ?call"
      by (simp add: addressed_to_def)
    show ?thesis
    proof (cases "status_code (post_response p ?call) \<noteq> 200")
      case True
      have "outbox (snd (telegram_send t p (b # blocks) md w)) = outbox w @ [?call]"
        using media b True by (simp add: Let_def)
      with a show ?thesis by (intro exI [of _ "[?call]"]) simp
    next
      case False
      obtain calls where c: "outbox (snd (telegram_send t p blocks md (w\<lparr>outbox := outbox w @ [?call]\<rparr>)))
           = (outbox w @ [?call]) @ calls" "list_all (addressed_to t cid) calls"
        using IH [of "w\<lparr>outbox := outbox w @ [?call]\<rparr>"] by auto
      have "outbox (snd (telegram_send t p (b # blocks) md w)) = outbox w @ ?call # calls"
        using media b False c(1) by (simp add: Let_def)
      with a c(2) show ?thesis by (intro exI [of _ "?call # calls"]) simp
    qed
  next
    case other
    obtain calls where c: "outbox (snd (telegram_send t p blocks md (w\<lparr>error_log := error_log w @ [UnableToSend (mime_type b)]\<rparr>)))
           = outbox w @ calls" "list_all (addressed_to t cid) calls"
      using IH [of "w\<lparr>error_log := error_log w @ [UnableToSend (mime_type b)]\<rparr>"] by auto
    with other show ?thesis by auto
  qed
qed

text \<open>The loop of \<open>build_emit_func\<close> over the one-time setter.\<close>

lemma set_chat_id_Inr: "set_chat_id cid b = Inr b' \<Longrightarrow> chat_id b' = cid"
  by (auto simp: set_chat_id_def chat_id_with_chat_id split: if_splits)

lemma set_chat_ids_Inr:
  "set_chat_ids cid blocks = Inr blocks' \<Longrightarrow> list_all (\<lambda>b. chat_id b = cid) blocks'"
proof (induction blocks arbitrary: blocks')
  case Nil
  then show ?case by simp
next
  case (Cons b blocks)
  then show ?case
    by (auto split: sum.splits dest: set_chat_id_Inr)
qed

lemma set_chat_ids_stores:
  "list_all (\<lambda>b. chat_id b = PNone \<or> chat_id b = cid) blocks \<Longrightarrow>
     set_chat_ids cid blocks = Inr (map (\<lambda>b. if chat_id b = PNone then with_chat_id cid b else b) blocks)"
  by (induction blocks) (auto simp: set_chat_id_def)

lemma set_chat_ids_raises:
  "\<not> list_all (\<lambda>b. chat_id b = PNone \<or> chat_id b = cid) blocks \<Longrightarrow>
     set_chat_ids cid blocks = Inl (SteamshipError TagAlreadySet)"
proof (induction blocks)
  case Nil
  then show ?case by simp
next
  case (Cons b blocks)
  show ?case
  proof (cases "chat_id b = PNone \<or> chat_id b = cid")
    case True
    with Cons.prems have "\<not> list_all (\<lambda>b. chat_id b = PNone \<or> chat_id b = cid) blocks"
      by simp
    then have "set_chat_ids cid blocks = Inl (SteamshipError TagAlreadySet)"
      by (rule Cons.IH)
    with True show ?thesis
      by (auto simp: set_chat_id_def)
  next
    case False
    then show ?thesis
      by (simp add: set_chat_id_def)
  qed
qed

text \<open>
  C9, as the code has it.  The emission callback built for a chat id calls
  \<open>set_chat_id\<close> with that id on every emitted block before it calls \<open>send\<close>.  Every
  request an emission adds to the outbox is addressed to that chat id, whatever the blocks
  carried before.  When every block carries no chat id or already that one, \<open>send\<close>
  receives the blocks all carrying that chat id.  When some block carries another chat
  id, it is not overwritten: the setter raises \<open>SteamshipError\<close>, \<open>send\<close> is not called
  and the world is left as it was.
\<close>

theorem build_emit_func_addresses_chat:
  "(\<exists>calls. outbox (snd (build_emit_func t p cid blocks md w)) = outbox w @ calls
            \<and> list_all (addressed_to t cid) calls)
   \<and> (list_all (\<lambda>b. chat_id b = PNone \<or> chat_id b = cid) blocks \<longrightarrow>
        build_emit_func t p cid blocks md w =
          send (telegram_send t p) (map (\<lambda>b. if chat_id b = PNone then with_chat_id cid b else b) blocks) (Some md) w
        \<and> list_all (\<lambda>b. chat_id b = cid) (map (\<lambda>b. if chat_id b = PNone then with_chat_id cid b else b) blocks))
   \<and> (\<not> list_all (\<lambda>b. chat_id b = PNone \<or> chat_id b = cid) blocks \<longrightarrow>
        build_emit_func t p cid blocks md w = (Inl (SteamshipError TagAlreadySet), w))"
proof (cases "list_all (\<lambda>b. chat_id b = PNone \<or> chat_id b = cid) blocks")
  case True
  let ?stored = "map (\<lambda>b. if chat_id b = PNone then with_chat_id cid b else b) blocks"
  have loop: "set_chat_ids cid blocks = Inr ?stored"
    using True by (rule set_chat_ids_stores)
  then have all: "list_all (\<lambda>b. chat_id b = cid) ?stored"
    by (rule set_chat_ids_Inr)
  have run: "build_emit_func t p cid blocks md w = send (telegram_send t p) ?stored (Some md) w"
    by (simp add: build_emit_func_def loop)
  have "\<exists>calls. outbox (snd (telegram_send t p ?stored md w)) = outbox w @ calls
           \<and> list_all (addressed_to t cid) calls"
    using all by (rule telegram_send_addressed)
  then have "\<exists>calls. outbox (snd (build_emit_func t p cid blocks md w)) = outbox w @ calls
           \<and> list_all (addressed_to t cid) calls"
    unfolding run by (simp add: send_def)
  with True run all show ?thesis
    by blast
next
  case False
  then have "set_chat_ids cid blocks = Inl (SteamshipError TagAlreadySet)"
    by (rule set_chat_ids_raises)
  then have run: "build_emit_func t p cid blocks md w = (Inl (SteamshipError TagAlreadySet), w)"
    by (simp add: build_emit_func_def)
  have "\<exists>calls. outbox (snd (build_emit_func t p cid blocks md w)) = outbox w @ calls
           \<and> list_all (addressed_to t cid) calls"
    unfolding run by simp
  with False run show ?thesis
    by blast
qed

theorem build_emit_func_addresses_chat_example:
  "build_emit_func sample_transport sample_provider (PInt 42) [Block (PStr ''hi there'') None] [] empty_world
     = (Inr (), empty_world\<lparr>outbox :=
          [Get ''https://api.telegram.org/botT0KEN/sendMessage'' [(''chat_id'', PInt 42), (''text'', PStr ''hi there'')]]\<rparr>)
   \<and> fst (build_emit_func sample_transport sample_provider (PInt 42)
            [Block (PStr ''hi there'') None, with_chat_id (PInt 7) (Block (PStr ''for another chat'') None)] []
            empty_world)
     = Inl (SteamshipError TagAlreadySet)"
  using build_emit_func_addresses_chat [of sample_transport sample_provider "PInt 42"
      "[Block (PStr ''hi there'') None]" "[]" empty_world]
    build_emit_func_addresses_chat [of sample_transport sample_provider "PInt 42"
      "[Block (PStr ''hi there'') None, with_chat_id (PInt 7) (Block (PStr ''for another chat'') None)]" "[]" empty_world]
  by (simp add: send_def with_chat_id_def Block_def chat_id_def sample_transport_def empty_world_def)

text \<open>
  C9 as stated fails at a block that carries the chat id \<open>999\<close>, emitted for chat \<open>42\<close>:
  its chat id is not overwritten, the callback raises and no request is made.
\<close>

theorem build_emit_func_keeps_other_chat_id:
  "chat_id (with_chat_id (PStr ''999'') (Block (PStr ''hi there'') None)) = PStr ''999''
   \<and> build_emit_func sample_transport sample_provider (PInt 42)
        [with_chat_id (PStr ''999'') (Block (PStr ''hi there'') None)] [] empty_world
     = (Inl (SteamshipError TagAlreadySet), empty_world)"
  by (simp add: build_emit_func_def set_chat_id_def with_chat_id_def Block_def chat_id_def)

text \<open>
  What \<open>_send\<close> does when an upload is refused: the error is logged and raised, and the
  requests made before it stay in the outbox.
\<close>

lemma telegram_send_media_refused:
  assumes "\<not> is_text b" "\<not> truthy (block_text b)" "is_image b \<or> is_audio b \<or> is_video b"
    and "status_code (post_response p (media_call t b)) \<noteq> 200"
  shows "telegram_send t p (b # blocks) md w =
     (Inl (SteamshipError (MessageNotSent (response_text (post_response p (media_call t b))))),
      w\<lparr>outbox := outbox w @ [media_call t b],
        error_log := error_log w @
          [ErrorSendingMessage (response_text (post_response p (media_call t b)))
             (status_code (post_response p (media_call t b)))]\<rparr>)"
  using assms by (simp add: media_call_def Let_def)

lemma telegram_send_outbox_grows:
  "\<exists>calls. outbox (snd (telegram_send t p blocks md w)) = outbox w @ calls"
proof (induction blocks arbitrary: w)
  case Nil
  then show ?case by simp
next
  case (Cons b blocks)
  have step: "\<And>w' cs. outbox w' = outbox w @ cs \<Longrightarrow>
      \<exists>calls. outbox (snd (telegram_send t p blocks md w')) = outbox w @ calls"
    using Cons.IH by (metis append.assoc)
  show ?case
    by (auto simp: Let_def split: sum.splits intro!: step)
qed

text \<open>
  C6 fails on the code for a text block.  The provider refuses every request, yet \<open>_send\<close>
  of a batch with one text block returns normally: the answer to \<open>sendMessage\<close> is never
  looked at, nothing is raised and nothing is logged.
\<close>

theorem telegram_send_text_ignores_status:
  "get_json failing_provider (Get (api_root t @ ''/sendMessage'') [(''chat_id'', PInt 1), (''text'', PStr ''hi'')])
     = PDict [(''ok'', PBool False), (''error_code'', PInt 400)]
   \<and> telegram_send t failing_provider [with_chat_id (PStr ''1'') (Block (PStr ''hi'') None)] [] w
     = (Inr (), w\<lparr>outbox := outbox w @ [Get (api_root t @ ''/sendMessage'') [(''chat_id'', PInt 1), (''text'', PStr ''hi'')]]\<rparr>)"
  by (simp add: failing_provider_def with_chat_id_def Block_def chat_id_def int_of_str_def strip_def
        is_space_def is_digit_def digits_value_def)

theorem telegram_send_text_ignores_status_example:
  "fst (telegram_send sample_transport failing_provider [with_chat_id (PStr ''1'') (Block (PStr ''hi'') None)] [] empty_world)
     = Inr ()
   \<and> error_log (snd (telegram_send sample_transport failing_provider [with_chat_id (PStr ''1'') (Block (PStr ''hi'') None)] [] empty_world))
     = []"
  using telegram_send_text_ignores_status [of sample_transport empty_world]
  by (simp add: empty_world_def)

section \<open>The Telegram webhook\<close>

lemma isinstance_int_py_int: "isinstance_int v \<Longrightarrow> \<exists>n. py_int v = Inr n"
  by (cases v) auto

lemma send_error_block:
  assumes "py_int cid = Inr n"
  shows "send (telegram_send t p) [response_for_exception e cid] None w =
     (Inr (), w\<lparr>outbox := outbox w @
        [Get (api_root t @ ''/sendMessage'')
           [(''chat_id'', PInt n), (''text'', block_text (response_for_exception e cid))]]\<rparr>)"
proof -
  have "truthy (block_text (response_for_exception e cid))"
    by (simp add: response_for_exception_def with_chat_id_def Block_def)
  moreover have "chat_id (response_for_exception e cid) = cid"
    by (simp add: response_for_exception_def chat_id_with_chat_id)
  ultimately show ?thesis
    using assms by (simp add: send_def)
qed

text \<open>
  What holds of the acknowledgement: on keyword arguments shaped like a Telegram update,
  \<open>telegram_respond\<close> returns \<open>OK\<close> whatever parsing, context resolution and the agent do.
\<close>

lemma telegram_respond_acknowledges:
  assumes "update_shaped kwargs"
  shows "fst (telegram_respond t svc p kwargs w) = Inr ''OK''"
proof -
  let ?message = "case map_of kwargs ''message'' of None \<Rightarrow> PDict [] | Some m \<Rightarrow> m"
  obtain chat cid where c: "py_get_default ?message ''chat'' (PDict []) = Inr chat"
      "py_get chat ''id'' = Inr cid" "cid = PNone \<or> isinstance_int cid"
    using assms by (auto simp: update_shaped_def split: sum.splits)
  obtain r w' where r: "telegram_respond_try t svc p ?message cid w = (r, w')"
    by (cases "telegram_respond_try t svc p ?message cid w")
  show ?thesis
  proof (cases r)
    case (Inr u)
    then show ?thesis
      by (simp add: telegram_respond_def c(1,2) r del: py_get.simps py_get_default.simps)
  next
    case (Inl e)
    show ?thesis
    proof (cases "cid = PNone")
      case True
      with Inl r c(1,2) show ?thesis
        by (simp add: telegram_respond_def del: py_get.simps py_get_default.simps)
    next
      case False
      with c(3) obtain n where "py_int cid = Inr n"
        using isinstance_int_py_int by blast
      with Inl False show ?thesis
        by (simp add: telegram_respond_def c(1,2) r send_error_block
              del: py_get.simps py_get_default.simps)
    qed
  qed
qed

text \<open>
  And of the error block: when the \<open>try\<close> body raises and the chat id is an integer, exactly
  one request follows, a \<open>sendMessage\<close> of the error block to that chat; when no chat id was
  found, nothing follows.
\<close>

lemma telegram_respond_reports_error:
  assumes "py_get_default (case map_of kwargs ''message'' of None \<Rightarrow> PDict [] | Some m \<Rightarrow> m)
             ''chat'' (PDict []) = Inr chat"
    and "py_get chat ''id'' = Inr cid"
    and "telegram_respond_try t svc p (case map_of kwargs ''message'' of None \<Rightarrow> PDict [] | Some m \<Rightarrow> m) cid w
           = (Inl e, w')"
  shows "cid = PNone \<Longrightarrow> telegram_respond t svc p kwargs w = (Inr ''OK'', w')"
    and "py_int cid = Inr n \<Longrightarrow> cid \<noteq> PNone \<Longrightarrow>
         telegram_respond t svc p kwargs w =
           (Inr ''OK'', w'\<lparr>outbox := outbox w' @
              [Get (api_root t @ ''/sendMessage'')
                 [(''chat_id'', PInt n), (''text'', block_text (response_for_exception e cid))]]\<rparr>)"
  using assms
  by (simp_all add: telegram_respond_def send_error_block del: py_get.simps py_get_default.simps)

text \<open>
  C1 fails on the code.  The chat id is read before the \<open>try\<close>: when \<open>chat\<close> is not a dict,
  here a number, the \<open>get\<close> on it raises \<open>AttributeError\<close>, which leaves the endpoint
  instead of the acknowledgement.
\<close>

theorem telegram_respond_exception_escapes:
  "telegram_respond t svc p [(''message'', PDict [(''chat'', PInt 5)])] w = (Inl AttributeError, w)"
  by (simp add: telegram_respond_def)

theorem telegram_respond_exception_escapes_example:
  "fst (telegram_respond sample_transport sample_service sample_provider
          [(''message'', PDict [(''chat'', PInt 5)])] empty_world) = Inl AttributeError"
  using telegram_respond_exception_escapes [of sample_transport sample_service sample_provider empty_world]
  by simp

text \<open>
  The \<open>send\<close> inside the handler is not guarded either: a chat id that is a string of
  letters fails the integer check, and sending the error block then raises \<open>ValueError\<close>
  at \<open>int(chat_id)\<close>.
\<close>

lemma telegram_respond_handler_raises:
  "telegram_respond t svc p
     [(''message'', PDict [(''chat'', PDict [(''id'', PStr ''abc'')]), (''message_id'', PInt 1), (''text'', PStr ''hi'')])] w
   = (Inl ValueError, w)"
  by (simp add: telegram_respond_def telegram_respond_try_def telegram_parse_inbound_def
        response_for_exception_def send_def with_chat_id_def Block_def chat_id_def
        int_of_str_def strip_def is_space_def is_digit_def digits_value_def)

section \<open>The web widget\<close>

lemma build_default_context_fst:
  "fst (build_default_context svc cid w) =
     fst (AgentContext_get_or_create (service_client svc) [(''id'', py_str cid)] None True
            (use_llm_cache svc) (use_action_cache svc) (steamship w))"
  by (simp add: build_default_context_def split: prod.splits)

lemma build_default_context_snd:
  "snd (build_default_context svc cid w) =
     w\<lparr>steamship := snd (AgentContext_get_or_create (service_client svc) [(''id'', py_str cid)] None True
            (use_llm_cache svc) (use_action_cache svc) (steamship w))\<rparr>"
  by (simp add: build_default_context_def split: prod.splits)

lemma append_after_get_or_create:
  "history_entries
     (append_user_message (fst (ChatHistory_get_or_create c k tgs s pf)) tx tg
        (pf'\<lparr>histories := histories (snd (ChatHistory_get_or_create c k tgs s pf))\<rparr>)) k' =
   (if k' = (c, k)
    then history_entries pf (c, k) @ [\<lparr>entry_role = User, entry_text = tx, entry_tags = tg\<rparr>]
    else history_entries pf k')"
  by (auto simp: history_entries_def append_user_message_def map_of_map_entry
        ChatHistory_get_or_create_def split: option.splits if_splits)

text \<open>Contextualizing appends one user entry to the conversation of the message, and only there.\<close>

lemma contextualized_history:
  "history_entries (steamship (contextualized svc m w)) k' =
     (if k' = (service_client svc, [(''id'', py_str (chat_id m))])
      then history_entries (steamship w) k' @ [\<lparr>entry_role = User, entry_text = block_text m, entry_tags = tags m\<rparr>]
      else history_entries (steamship w) k')"
proof -
  let ?c = "service_client svc" and ?k = "[(''id'', py_str (chat_id m))]"
  let ?r = "AgentContext_get_or_create ?c ?k None True (use_llm_cache svc) (use_action_cache svc) (steamship w)"
  let ?h = "ChatHistory_get_or_create ?c ?k None True (steamship w)"
  have 1: "chat_history (fst ?r) = fst ?h"
    by (simp add: get_or_create_context Let_def)
  have 2: "snd ?r = (snd ?r)\<lparr>histories := histories (snd ?h)\<rparr>"
    using get_or_create_histories [of ?c ?k None True "use_llm_cache svc" "use_action_cache svc" "steamship w"]
    by simp
  have "steamship (contextualized svc m w) =
      append_user_message (fst ?h) (block_text m) (tags m) ((snd ?r)\<lparr>histories := histories (snd ?h)\<rparr>)"
    unfolding contextualized_def build_default_context_fst build_default_context_snd 1
    using 2 by simp
  then show ?thesis
    by (auto simp only: append_after_get_or_create split: if_splits)
qed

lemma contextualized_frame:
  "message_output (contextualized svc m w) = message_output w"
  "outbox (contextualized svc m w) = outbox w"
  "agent_runs (contextualized svc m w) = agent_runs w"
  by (simp_all add: contextualized_def build_default_context_snd)

lemma answer_parsed:
  assumes "widget_parse_inbound (PDict payload) u = Inr (Some m)"
  shows "answer svc payload u w =
     (let context = (fst (build_default_context svc (chat_id m) w))\<lparr>emit_funcs := [save_for_emit]\<rparr>;
          w4 = (case run_agent (default_agent svc) context (contextualized svc m w) of
                  (Inl e, w3) \<Rightarrow> w3\<lparr>message_output := Some [response_for_exception e (chat_id m)]\<rparr>
                | (Inr _, w3) \<Rightarrow> w3)
      in (case message_output w4 of None \<Rightarrow> (Inl AttributeError, w4) | Some out \<Rightarrow> (Inr out, w4)))"
  by (simp add: answer_def assms contextualized_def Let_def case_prod_beta)

lemma widget_parse_question:
  assumes "py_get (PDict payload) ''question'' = Inr q" "q \<noteq> PNone"
  shows "\<exists>m. widget_parse_inbound (PDict payload) u = Inr (Some m) \<and> block_text m = q"
proof -
  have "block_text (with_message_id a (with_chat_id c (Block q None))) = q" for a c
    by (simp add: with_chat_id_def with_message_id_def Block_def)
  then show ?thesis
    using assms by (simp add: widget_parse_inbound_def del: py_get.simps)
qed

text \<open>
  C8.  On the payload \<open>{"question": "hello", "chat_session_id": "abc"}\<close>, with an agent
  that emits the single text block \<open>hi there\<close> through the registered callback, \<open>answer\<close>
  returns the list with exactly that block; the chat history of conversation \<open>abc\<close> gains
  exactly one entry, a user entry with text \<open>hello\<close>, and no other conversation's history
  changes.
\<close>

theorem answer_hello_scenario:
  assumes "default_agent svc = Emit [Block (PStr ''hi there'') None] (Return r)"
  shows "fst (answer svc [(''question'', PStr ''hello''), (''chat_session_id'', PStr ''abc'')] u w)
           = Inr [Block (PStr ''hi there'') None]
       \<and> history_entries (steamship (snd (answer svc [(''question'', PStr ''hello''), (''chat_session_id'', PStr ''abc'')] u w))) k'
           = (if k' = (service_client svc, [(''id'', ''abc'')])
              then history_entries (steamship w) k' @
                     [\<lparr>entry_role = User, entry_text = PStr ''hello'',
                       entry_tags = [(''chat_id'', PStr ''abc''), (''message_id'', PStr u)]\<rparr>]
              else history_entries (steamship w) k')"
proof -
  let ?payload = "[(''question'', PStr ''hello''), (''chat_session_id'', PStr ''abc'')]"
  let ?m = "with_message_id (PStr u) (with_chat_id (PStr ''abc'') (Block (PStr ''hello'') None))"
  have m: "widget_parse_inbound (PDict ?payload) u = Inr (Some ?m)"
    by (simp add: widget_parse_inbound_def py_str_def)
  have cm: "chat_id ?m = PStr ''abc''" "block_text ?m = PStr ''hello''"
    "tags ?m = [(''chat_id'', PStr ''abc''), (''message_id'', PStr u)]"
    by (simp_all add: chat_id_def with_chat_id_def with_message_id_def Block_def)
  have run: "run_agent (default_agent svc)
        ((fst (build_default_context svc (chat_id ?m) w))\<lparr>emit_funcs := [save_for_emit]\<rparr>)
        (contextualized svc ?m w)
      = (Inr r, (contextualized svc ?m w)\<lparr>agent_runs := Suc (agent_runs w),
                   message_output := Some [Block (PStr ''hi there'') None]\<rparr>)"
    by (simp add: assms run_agent_def save_for_emit_def contextualized_frame)
  have ans: "answer svc ?payload u w =
      (Inr [Block (PStr ''hi there'') None],
       (contextualized svc ?m w)\<lparr>agent_runs := Suc (agent_runs w),
          message_output := Some [Block (PStr ''hi there'') None]\<rparr>)"
    by (simp add: answer_parsed [OF m] run Let_def)
  show ?thesis
    unfolding ans using contextualized_history [of svc ?m w k']
    by (simp add: cm py_str_def)
qed

theorem answer_hello_scenario_example:
  "fst (answer (sample_service\<lparr>default_agent := Emit [Block (PStr ''hi there'') None] (Return None)\<rparr>)
          [(''question'', PStr ''hello''), (''chat_session_id'', PStr ''abc'')] ''1f0c'' empty_world)
     = Inr [Block (PStr ''hi there'') None]
   \<and> history_entries
       (steamship (snd (answer (sample_service\<lparr>default_agent := Emit [Block (PStr ''hi there'') None] (Return None)\<rparr>)
          [(''question'', PStr ''hello''), (''chat_session_id'', PStr ''abc'')] ''1f0c'' empty_world)))
       (''workspace'', [(''id'', ''abc'')])
     = [\<lparr>entry_role = User, entry_text = PStr ''hello'',
         entry_tags = [(''chat_id'', PStr ''abc''), (''message_id'', PStr ''1f0c'')]\<rparr>]"
  using answer_hello_scenario [of "sample_service\<lparr>default_agent := Emit [Block (PStr ''hi there'') None] (Return None)\<rparr>"
      None "''1f0c''" empty_world "(''workspace'', [(''id'', ''abc'')])"]
  by (simp add: sample_service_def empty_world_def empty_platform_def history_entries_def)

text \<open>
  C10.  \<open>answer\<close> returns the \<open>message_output\<close> attribute and never clears it.  For a request
  that parses and whose agent run returns without raising and without emitting, it returns
  what the attribute held before the request, the output of an earlier request; and when
  the attribute was never assigned, as on a fresh instance, it raises \<open>AttributeError\<close>
  instead of returning an empty list.  The attribute is left as it was.
\<close>

theorem answer_returns_stale_output:
  assumes "py_get (PDict payload) ''question'' = Inr q" "q \<noteq> PNone"
    and "default_agent svc = Return r"
  shows "fst (answer svc payload u w) =
           (case message_output w of None \<Rightarrow> Inl AttributeError | Some out \<Rightarrow> Inr out)
       \<and> message_output (snd (answer svc payload u w)) = message_output w"
proof -
  obtain m where m: "widget_parse_inbound (PDict payload) u = Inr (Some m)"
    using widget_parse_question [OF assms(1,2)] by blast
  show ?thesis
    by (simp add: answer_parsed [OF m] assms(3) run_agent_def contextualized_frame Let_def
          split: option.splits)
qed

theorem answer_returns_stale_output_example:
  "fst (answer sample_service [(''question'', PStr ''second'')] ''1f0c''
          (empty_world\<lparr>message_output := Some [Block (PStr ''answer to the first'') None]\<rparr>))
     = Inr [Block (PStr ''answer to the first'') None]
   \<and> fst (answer sample_service [(''question'', PStr ''second'')] ''1f0c'' empty_world)
     = Inl AttributeError"
  using answer_returns_stale_output [of "[(''question'', PStr ''second'')]" "PStr ''second''" sample_service None
      "''1f0c''" "empty_world\<lparr>message_output := Some [Block (PStr ''answer to the first'') None]\<rparr>"]
    answer_returns_stale_output [of "[(''question'', PStr ''second'')]" "PStr ''second''" sample_service None
      "''1f0c''" empty_world]
  by (simp add: sample_service_def empty_world_def)

end
